theory Spec2Isabelle
  imports Main
begin

section \<open>Python values and exceptions\<close>

text \<open>
  The development server \<^verbatim>\<open>scripts/servers/server.py\<close> subclasses
  \<^verbatim>\<open>http.server.SimpleHTTPRequestHandler\<close> of the Python standard library and overrides
  two of its methods. A Python \<^verbatim>\<open>str\<close> handled by the request handler is modelled as a
  \<open>string\<close> with one \<open>char\<close> per code point (code points below 256, the range that the
  handler's \<^verbatim>\<open>encode('latin-1', 'strict')\<close> accepts). Exceptions are values.
\<close>

datatype exn =
    OSError "int option" string
  | KeyboardInterrupt
  | SystemExit int
  | ValueError
  | TypeError
  | AttributeError
  | OtherException string

text \<open>The Python values that a \<^verbatim>\<open>guess_type\<close> method can return or receive.\<close>

datatype pyval = PNone | PStr string | PTuple "pyval list"

text \<open>
  The assignment \<^verbatim>\<open>mimetype, encoding = v\<close>: \<^verbatim>\<open>v\<close> is iterated and must yield exactly two
  items. A tuple yields its components, a \<^verbatim>\<open>str\<close> yields its characters as one-character
  strings, \<^verbatim>\<open>None\<close> is not iterable (TypeError); any other number of items is a ValueError.
\<close>

fun py_iter :: "pyval \<Rightarrow> exn + pyval list" where
  "py_iter PNone = Inl TypeError"
| "py_iter (PStr s) = Inr (map (\<lambda>c. PStr [c]) s)"
| "py_iter (PTuple vs) = Inr vs"

fun unpack2 :: "pyval \<Rightarrow> exn + (pyval \<times> pyval)" where
  "unpack2 v =
     (case py_iter v of
        Inl e \<Rightarrow> Inl e
      | Inr [a, b] \<Rightarrow> Inr (a, b)
      | Inr _ \<Rightarrow> Inl ValueError)"

section \<open>String operations\<close>

text \<open>\<^verbatim>\<open>s.endswith(suf)\<close>: the last \<open>length suf\<close> characters of \<open>s\<close> are \<open>suf\<close>.\<close>

definition endswith :: "string \<Rightarrow> string \<Rightarrow> bool" where
  "endswith s suf \<longleftrightarrow> length suf \<le> length s \<and> drop (length s - length suf) s = suf"

text \<open>\<^verbatim>\<open>str.lower()\<close> on code points below 256.\<close>

definition lower_char :: "char \<Rightarrow> char" where
  "lower_char c =
     (let n = (of_char c :: nat)
      in if (65 \<le> n \<and> n \<le> 90) \<or> (192 \<le> n \<and> n \<le> 222 \<and> n \<noteq> 215)
         then char_of (n + 32) else c)"

definition lower :: "string \<Rightarrow> string" where
  "lower s = map lower_char s"

text \<open>\<^verbatim>\<open>p.rfind(c)\<close> for a single character: the last index of \<open>c\<close>, or \<open>-1\<close>.\<close>

definition rfind :: "string \<Rightarrow> char \<Rightarrow> int" where
  "rfind p c =
     (case filter (\<lambda>i. p ! i = c) (rev [0..<length p]) of
        [] \<Rightarrow> - 1
      | i # _ \<Rightarrow> int i)"

text \<open>
  \<^verbatim>\<open>posixpath.splitext\<close> (\<^verbatim>\<open>genericpath._splitext\<close> with separator \<^verbatim>\<open>/\<close>): the extension
  starts at the last dot of the last path component, unless only dots precede it there.
  \<^verbatim>\<open>
    dotIndex = p.rfind(extsep)
    if dotIndex > sepIndex:
        filenameIndex = sepIndex + 1
        while filenameIndex < dotIndex:
            if p[filenameIndex:filenameIndex+1] != extsep:
                return p[:dotIndex], p[dotIndex:]
            filenameIndex += 1
    return p, p[:0]
  \<close>
\<close>

function has_nondot :: "string \<Rightarrow> nat \<Rightarrow> nat \<Rightarrow> bool" where
  "has_nondot p filenameIndex dotIndex =
     (if filenameIndex < dotIndex
      then (if take 1 (drop filenameIndex p) \<noteq> ''.'' then True
            else has_nondot p (filenameIndex + 1) dotIndex)
      else False)"
  by pat_completeness auto
termination
  by (relation "measure (\<lambda>(p, f, d). d - f)") auto

declare has_nondot.simps [simp del]

definition splitext :: "string \<Rightarrow> string \<times> string" where
  "splitext p =
     (let sepIndex = rfind p CHR ''/'';
          dotIndex = rfind p CHR ''.''
      in if dotIndex > sepIndex \<and> has_nondot p (nat (sepIndex + 1)) (nat dotIndex)
         then (take (nat dotIndex) p, drop (nat dotIndex) p)
         else (p, []))"

section \<open>The parent handler's MIME-type resolver\<close>

text \<open>
  \<^verbatim>\<open>http.server.SimpleHTTPRequestHandler.guess_type\<close>, the method that the server's
  override reaches through \<^verbatim>\<open>super()\<close>. It is part of the Python standard library, not of
  the repository; its documented return value is "a string of the form type/subtype":
  \<^verbatim>\<open>
    def guess_type(self, path):
        base, ext = posixpath.splitext(path)
        if ext in self.extensions_map:
            return self.extensions_map[ext]
        ext = ext.lower()
        if ext in self.extensions_map:
            return self.extensions_map[ext]
        guess, _ = mimetypes.guess_type(path)
        if guess:
            return guess
        return 'application/octet-stream'
  \<close>
  The system's MIME database is a parameter: \<open>mt path\<close> is the first component of
  \<^verbatim>\<open>mimetypes.guess_type(path)\<close>, \<open>None\<close> when the database has no answer.
\<close>

definition extensions_map :: "string \<rightharpoonup> string" where
  "extensions_map =
     map_of [(''.gz'', ''application/gzip''),
             (''.Z'', ''application/octet-stream''),
             (''.bz2'', ''application/x-bzip2''),
             (''.xz'', ''application/x-xz'')]"

definition simple_guess_type :: "(string \<rightharpoonup> string) \<Rightarrow> (string \<Rightarrow> string option) \<Rightarrow> string \<Rightarrow> string" where
  "simple_guess_type emap mt path =
     (let ext = snd (splitext path)
      in case emap ext of
           Some t \<Rightarrow> t
         | None \<Rightarrow>
             (case emap (lower ext) of
                Some t \<Rightarrow> t
              | None \<Rightarrow>
                  (case mt path of
                     Some guess \<Rightarrow> if guess \<noteq> [] then guess else ''application/octet-stream''
                   | None \<Rightarrow> ''application/octet-stream'')))"

text \<open>The parent's method as a Python callable: its result is always a \<^verbatim>\<open>str\<close>.\<close>

definition stock_guess_type :: "(string \<rightharpoonup> string) \<Rightarrow> (string \<Rightarrow> string option) \<Rightarrow> string \<Rightarrow> pyval" where
  "stock_guess_type emap mt path = PStr (simple_guess_type emap mt path)"

text \<open>
  A sample of the system's MIME database for the examples below: the entries of
  \<^verbatim>\<open>mimetypes.types_map\<close> for a few extensions, looked up by the lower-cased extension.
\<close>

definition types_map :: "(string \<times> string) list" where
  "types_map =
     [(''.js'', ''text/javascript''),
      (''.html'', ''text/html''),
      (''.css'', ''text/css''),
      (''.json'', ''application/json''),
      (''.wasm'', ''application/wasm'')]"

definition mimetypes_guess :: "string \<Rightarrow> string option" where
  "mimetypes_guess path = map_of types_map (lower (snd (splitext path)))"

section \<open>The server's MIME-type override\<close>

text \<open>
  \<^verbatim>\<open>
    def guess_type(self, path):
        mimetype, encoding = super().guess_type(path)
        if path.endswith('.js'):
            return 'application/javascript', encoding
        return mimetype, encoding
  \<close>
  The parent's method is the argument \<open>super\<close>, so that the override can be studied against
  any parent; the server runs it with \<open>stock_guess_type\<close>.
\<close>

definition guess_type :: "(string \<Rightarrow> pyval) \<Rightarrow> string \<Rightarrow> exn + pyval" where
  "guess_type super path =
     (case unpack2 (super path) of
        Inl e \<Rightarrow> Inl e
      | Inr (mimetype, encoding) \<Rightarrow>
          if endswith path ''.js''
          then Inr (PTuple [PStr ''application/javascript'', encoding])
          else Inr (PTuple [mimetype, encoding]))"

section \<open>Response headers\<close>

text \<open>
  The state of a request handler that the header methods of
  \<^verbatim>\<open>http.server.BaseHTTPRequestHandler\<close> read and write: the protocol version of the request
  being answered, the list of header lines collected so far (\<open>None\<close> while the attribute
  \<^verbatim>\<open>_headers_buffer\<close> does not exist), the bytes written to the client so far, and the
  keep-alive flag. The output stream \<^verbatim>\<open>wfile\<close> is an in-memory sink: a write appends.
\<close>

record handler =
  request_version :: string
  headers_buffer :: "string list option"
  wfile :: string
  close_connection :: bool

definition crlf :: string where
  "crlf = [CHR 0x0D, CHR 0x0A]"

text \<open>The header lines collected and not yet written.\<close>

definition pending :: "handler \<Rightarrow> string list" where
  "pending h = (case headers_buffer h of None \<Rightarrow> [] | Some b \<Rightarrow> b)"

text \<open>
  The parent's \<^verbatim>\<open>send_header\<close>:
  \<^verbatim>\<open>
    def send_header(self, keyword, value):
        if self.request_version != 'HTTP/0.9':
            if not hasattr(self, '_headers_buffer'):
                self._headers_buffer = []
            self._headers_buffer.append(
                ("%s: %s\r\n" % (keyword, value)).encode('latin-1', 'strict'))
        if keyword.lower() == 'connection':
            if value.lower() == 'close':
                self.close_connection = True
            elif value.lower() == 'keep-alive':
                self.close_connection = False
  \<close>
\<close>

definition header_line :: "string \<Rightarrow> string \<Rightarrow> string" where
  "header_line keyword val = keyword @ '': '' @ val @ crlf"

definition send_header :: "string \<Rightarrow> string \<Rightarrow> handler \<Rightarrow> handler" where
  "send_header keyword val h =
     (let h1 = (if request_version h \<noteq> ''HTTP/0.9''
                then h\<lparr>headers_buffer := Some (pending h @ [header_line keyword val])\<rparr>
                else h)
      in if lower keyword = ''connection''
         then (if lower val = ''close'' then h1\<lparr>close_connection := True\<rparr>
               else if lower val = ''keep-alive'' then h1\<lparr>close_connection := False\<rparr>
               else h1)
         else h1)"

text \<open>
  The parent's \<^verbatim>\<open>flush_headers\<close> and \<^verbatim>\<open>end_headers\<close>:
  \<^verbatim>\<open>
    def end_headers(self):
        if self.request_version != 'HTTP/0.9':
            self._headers_buffer.append(b"\r\n")
            self.flush_headers()

    def flush_headers(self):
        if hasattr(self, '_headers_buffer'):
            self.wfile.write(b"".join(self._headers_buffer))
            self._headers_buffer = []
  \<close>
  Appending to a buffer that does not exist is an AttributeError.
\<close>

definition flush_headers :: "handler \<Rightarrow> handler" where
  "flush_headers h =
     (case headers_buffer h of
        None \<Rightarrow> h
      | Some b \<Rightarrow> h\<lparr>wfile := wfile h @ concat b, headers_buffer := Some []\<rparr>)"

definition base_end_headers :: "handler \<Rightarrow> exn + handler" where
  "base_end_headers h =
     (if request_version h \<noteq> ''HTTP/0.9''
      then (case headers_buffer h of
              None \<Rightarrow> Inl AttributeError
            | Some b \<Rightarrow> Inr (flush_headers (h\<lparr>headers_buffer := Some (b @ [crlf])\<rparr>)))
      else Inr h)"

text \<open>
  The server's override:
  \<^verbatim>\<open>
    def end_headers(self):
        self.send_header('Access-Control-Allow-Origin', '*')
        self.send_header('Access-Control-Allow-Methods', 'GET, POST, OPTIONS')
        self.send_header('Access-Control-Allow-Headers', '*')
        super().end_headers()
  \<close>
\<close>

definition end_headers :: "handler \<Rightarrow> exn + handler" where
  "end_headers h =
     base_end_headers
       (send_header ''Access-Control-Allow-Headers'' ''*''
         (send_header ''Access-Control-Allow-Methods'' ''GET, POST, OPTIONS''
           (send_header ''Access-Control-Allow-Origin'' ''*'' h)))"

text \<open>The three header lines of the permissive CORS policy, in the order they are appended.\<close>

definition cors_headers :: "string list" where
  "cors_headers =
     [header_line ''Access-Control-Allow-Origin'' ''*'',
      header_line ''Access-Control-Allow-Methods'' ''GET, POST, OPTIONS'',
      header_line ''Access-Control-Allow-Headers'' ''*'']"

text \<open>\<open>contains s t\<close>: the byte string \<open>t\<close> occurs in \<open>s\<close>.\<close>

definition contains :: "string \<Rightarrow> string \<Rightarrow> bool" where
  "contains s t = list_ex (\<lambda>i. take (length t) (drop i s) = t) [0..<Suc (length s)]"

text \<open>The bytes that a step from \<open>h\<close> to \<open>h'\<close> wrote to the client.\<close>

definition written :: "handler \<Rightarrow> handler \<Rightarrow> string" where
  "written h h' = drop (length (wfile h)) (wfile h')"

text \<open>The response carries the three CORS headers with exactly the stated values.\<close>

definition cors_sent :: "handler \<Rightarrow> handler \<Rightarrow> bool" where
  "cors_sent h h' \<longleftrightarrow> list_all (contains (written h h')) cors_headers"

section \<open>Paths\<close>

text \<open>
  \<^verbatim>\<open>Path(__file__).parent\<close> on a POSIX system, after \<^verbatim>\<open>pathlib\<close>: a path is parsed into a
  root (\<^verbatim>\<open>''\<close>, \<^verbatim>\<open>'/'\<close> or \<^verbatim>\<open>'//'\<close>) and the list of its components, empty components and
  \<^verbatim>\<open>'.'\<close> dropped; the parent drops the last component, if there is one; the string of a
  path joins the components with \<^verbatim>\<open>/\<close> after the root, and is \<^verbatim>\<open>'.'\<close> when that is empty.
\<close>

fun split_on :: "char \<Rightarrow> string \<Rightarrow> string list" where
  "split_on c [] = [[]]"
| "split_on c (x # xs) =
     (if x = c then [] # split_on c xs
      else (case split_on c xs of [] \<Rightarrow> [[x]] | w # ws \<Rightarrow> (x # w) # ws))"

fun join :: "string \<Rightarrow> string list \<Rightarrow> string" where
  "join sep [] = []"
| "join sep [x] = x"
| "join sep (x # y # ys) = x @ sep @ join sep (y # ys)"

definition splitroot :: "string \<Rightarrow> string \<times> string" where
  "splitroot p =
     (if take 1 p \<noteq> ''/'' then ([], p)
      else if take 1 (drop 1 p) \<noteq> ''/'' \<or> take 1 (drop 2 p) = ''/'' then (''/'', drop 1 p)
      else (''//'', drop 2 p))"

definition parse_path :: "string \<Rightarrow> string \<times> string list" where
  "parse_path p =
     (if p = [] then ([], [])
      else (let (root, rel) = splitroot p
            in (root, filter (\<lambda>x. x \<noteq> [] \<and> x \<noteq> ''.'') (split_on CHR ''/'' rel))))"

definition path_parent :: "string \<times> string list \<Rightarrow> string \<times> string list" where
  "path_parent p = (case p of (root, tail) \<Rightarrow> if tail = [] then p else (root, butlast tail))"

definition path_str :: "string \<times> string list \<Rightarrow> string" where
  "path_str p =
     (case p of (root, tail) \<Rightarrow>
        (let s = (if root \<noteq> [] then root @ join ''/'' tail else join ''/'' tail)
         in if s = [] then ''.'' else s))"

section \<open>Start-up and shutdown\<close>

text \<open>
  \<^verbatim>\<open>main()\<close> talks to the operating system; what it meets there is the environment of a
  run: the value of \<^verbatim>\<open>__file__\<close>, and how each call into the system ends. \<^verbatim>\<open>os.chdir\<close>, the
  \<^verbatim>\<open>socketserver.TCPServer\<close> constructor (which binds and listens) and \<^verbatim>\<open>webbrowser.open\<close>
  return or raise; \<^verbatim>\<open>serve_forever\<close> returns, raises, or keeps serving for ever.
\<close>

datatype call = Returns | Raises exn | Blocks

record env =
  script_file :: string
  chdir_result :: "exn option"
  bind_result :: "exn option"
  browser_result :: "exn option"
  serve_result :: call

text \<open>
  What a run does, in order. \<open>Print s\<close> is one call of \<^verbatim>\<open>print\<close>; the text is given as the
  bytes of its UTF-8 encoding, without the newline that \<^verbatim>\<open>print\<close> adds. Printing is total:
  a console that cannot encode the text is not modelled.
\<close>

datatype event =
    Chdir string
  | Print string
  | Bind string int
  | OpenBrowser string
  | ServeForever
  | ServerClose

text \<open>
  How the process ends: with an exit code and no traceback (\<^verbatim>\<open>main\<close> returned: code 0;
  \<^verbatim>\<open>sys.exit(n)\<close>: code \<open>n\<close>), with an exception that nothing caught (the interpreter
  prints its traceback and the exit status is not 0), or not at all.
\<close>

datatype outcome = Exit int | Uncaught exn | Serving

definition finish :: "exn \<Rightarrow> outcome" where
  "finish x = (case x of SystemExit n \<Rightarrow> Exit n | _ \<Rightarrow> Uncaught x)"

text \<open>How a block of statements ends.\<close>

datatype flow = Completed | Raised exn | Forever

definition PORT :: int where
  "PORT = 8000"

definition HOST :: string where
  "HOST = ''localhost''"

text \<open>\<^verbatim>\<open>str(n)\<close> for an integer: its decimal digits.\<close>

function str_nat :: "nat \<Rightarrow> string" where
  "str_nat n = (if n < 10 then [char_of (48 + n)] else str_nat (n div 10) @ [char_of (48 + n mod 10)])"
  by pat_completeness auto
termination
  by (relation "measure id") auto

declare str_nat.simps [simp del]

definition str_int :: "int \<Rightarrow> string" where
  "str_int i = (if i < 0 then ''-'' @ str_nat (nat (- i)) else str_nat (nat i))"

text \<open>The symbols of the messages, in UTF-8.\<close>

definition musical_note :: string where
  "musical_note = [CHR 0xF0, CHR 0x9F, CHR 0x8E, CHR 0xB5]"

definition check_mark :: string where
  "check_mark = [CHR 0xE2, CHR 0x9C, CHR 0x85]"

definition clipboard :: string where
  "clipboard = [CHR 0xF0, CHR 0x9F, CHR 0x93, CHR 0x8B]"

definition globe :: string where
  "globe = [CHR 0xF0, CHR 0x9F, CHR 0x8C, CHR 0x90]"

definition rocket :: string where
  "rocket = [CHR 0xF0, CHR 0x9F, CHR 0x9A, CHR 0x80]"

definition light_bulb :: string where
  "light_bulb = [CHR 0xF0, CHR 0x9F, CHR 0x92, CHR 0xA1]"

definition cross_mark :: string where
  "cross_mark = [CHR 0xE2, CHR 0x9D, CHR 0x8C]"

definition stop_sign :: string where
  "stop_sign = [CHR 0xF0, CHR 0x9F, CHR 0x9B, CHR 0x91]"

definition url :: string where
  "url = ''http://'' @ HOST @ '':'' @ str_int PORT"

text \<open>Lines 40 to 44: the banner, printed before the \<^verbatim>\<open>try\<close>.\<close>

definition banner :: "string \<Rightarrow> string list" where
  "banner script_dir =
     [musical_note @ '' FLUX Audio Visualizer - Local Server'',
      replicate 50 CHR ''='',
      ''Starting server at '' @ url,
      ''Serving files from: '' @ script_dir,
      []]"

text \<open>Lines 48 to 67: printed once the server object exists.\<close>

definition started_lines :: "string list" where
  "started_lines =
     [check_mark @ '' Server started successfully!'',
      [],
      clipboard @ '' Instructions:'',
      ''1. Keep this terminal window open'',
      ''2. Open Chrome and go to: http://localhost:8000'',
      ''3. Click the '' @ musical_note @ '' audio button and follow the setup'',
      ''4. Press Ctrl+C here to stop the server'',
      [],
      globe @ '' Available URLs:'',
      ''  Main FLUX:           '' @ url @ ''/'',
      ''  Debug Status:        '' @ url @ ''/debug-status.html'',
      ''  WASM Test:           '' @ url @ ''/test-wasm-loading.html'',
      ''  Fallback Physics:    '' @ url @ ''/test-fallback-physics.html'',
      ''  PIXI Fallback:       '' @ url @ ''/test-pixi-fallback.html'',
      ''  Chrome Launcher:     '' @ url @ ''/launch-in-chrome.html'',
      ''  Browser Test:        '' @ url @ ''/test-browser-compatibility.html'',
      ''  PIXI CDN Test:       '' @ url @ ''/test-pixi-cdn.html'',
      ''  Simple Demo:         '' @ url @ ''/demo-two-click-simple.html'',
      ''  Two-Click Test:      '' @ url @ ''/test-two-click-audio.html'',
      []]"

definition opening_line :: string where
  "opening_line = rocket @ '' Opening FLUX in your default browser...''"

definition manual_line :: string where
  "manual_line = light_bulb @ '' Please manually open your browser and navigate to the URL above''"

text \<open>
  Lines 69 to 74: the bare \<^verbatim>\<open>except:\<close> catches whatever \<^verbatim>\<open>webbrowser.open\<close> raises.
  \<^verbatim>\<open>
    try:
        webbrowser.open(f'http://{HOST}:{PORT}')
        print("... Opening FLUX in your default browser...")
    except:
        print("... Please manually open your browser and navigate to the URL above")
  \<close>
\<close>

definition open_browser :: "env \<Rightarrow> event list" where
  "open_browser e =
     [OpenBrowser url,
      Print (case browser_result e of None \<Rightarrow> opening_line | Some _ \<Rightarrow> manual_line)]"

text \<open>
  Lines 47 to 78, the body of the \<^verbatim>\<open>try\<close>: the \<^verbatim>\<open>with\<close> statement closes the server when
  its body is left, normally or by an exception.
\<close>

definition try_block :: "env \<Rightarrow> event list \<times> flow" where
  "try_block e =
     (case bind_result e of
        Some x \<Rightarrow> ([Bind HOST PORT], Raised x)
      | None \<Rightarrow>
          (let evs = [Bind HOST PORT] @ map Print started_lines @ open_browser e @
                     [Print [], Print ''Server is running... Press Ctrl+C to stop'', ServeForever]
           in case serve_result e of
                Blocks \<Rightarrow> (evs, Forever)
              | Returns \<Rightarrow> (evs @ [ServerClose], Completed)
              | Raises x \<Rightarrow> (evs @ [ServerClose], Raised x)))"

text \<open>
  Lines 80 to 90, the handler of \<^verbatim>\<open>OSError\<close>:
  \<^verbatim>\<open>
    except OSError as e:
        if e.errno == 48 or e.errno == 10048:  # Address already in use
            print(f"... Port {PORT} is already in use!")
            ...
        else:
            print(f"... Server error: {e}")
        sys.exit(1)
  \<close>
  The exception carries its \<^verbatim>\<open>errno\<close> (possibly \<^verbatim>\<open>None\<close>) and its text \<^verbatim>\<open>str(e)\<close>.
\<close>

definition is_address_in_use :: "int option \<Rightarrow> bool" where
  "is_address_in_use errno \<longleftrightarrow> errno = Some 48 \<or> errno = Some 10048"

definition port_in_use_lines :: "string list" where
  "port_in_use_lines =
     [cross_mark @ '' Port '' @ str_int PORT @ '' is already in use!'',
      [],
      ''Solutions:'',
      ''1. Stop any other server running on port '' @ str_int PORT,
      ''2. Or open your browser and go to: http://localhost:8000'',
      ''3. Or edit this script to use a different port'']"

definition server_error_line :: "string \<Rightarrow> string" where
  "server_error_line msg = cross_mark @ '' Server error: '' @ msg"

definition on_oserror :: "int option \<Rightarrow> string \<Rightarrow> event list" where
  "on_oserror errno msg =
     (if is_address_in_use errno then map Print port_in_use_lines
      else [Print (server_error_line msg)])"

text \<open>Lines 91 to 93, the handler of \<^verbatim>\<open>KeyboardInterrupt\<close>.\<close>

definition stopped_lines :: "string list" where
  "stopped_lines =
     [CHR 0x0A # stop_sign @ '' Server stopped by user'',
      ''Thanks for using FLUX! '' @ musical_note]"

text \<open>
  \<^verbatim>\<open>main()\<close>, run as the script: the directory change and the banner are outside the
  \<^verbatim>\<open>try\<close>, so an exception of \<^verbatim>\<open>os.chdir\<close> ends the process; \<^verbatim>\<open>sys.exit(1)\<close> raises
  \<^verbatim>\<open>SystemExit(1)\<close> inside a handler, where no sibling handler catches it.
\<close>

definition script_dir :: "env \<Rightarrow> string" where
  "script_dir e = path_str (path_parent (parse_path (script_file e)))"

definition main :: "env \<Rightarrow> event list \<times> outcome" where
  "main e =
     (case chdir_result e of
        Some x \<Rightarrow> ([Chdir (script_dir e)], finish x)
      | None \<Rightarrow>
          (let pre = Chdir (script_dir e) # map Print (banner (script_dir e));
               (evs, fl) = try_block e
           in case fl of
                Completed \<Rightarrow> (pre @ evs, Exit 0)
              | Forever \<Rightarrow> (pre @ evs, Serving)
              | Raised x \<Rightarrow>
                  (case x of
                     OSError errno msg \<Rightarrow> (pre @ evs @ on_oserror errno msg, Exit 1)
                   | KeyboardInterrupt \<Rightarrow> (pre @ evs @ map Print stopped_lines, Exit 0)
                   | _ \<Rightarrow> (pre @ evs, finish x))))"

text \<open>
  The error number of "address already in use" (\<^verbatim>\<open>errno.EADDRINUSE\<close>) on the systems that
  run the script: 98 on Linux, 48 on macOS and the BSDs, 10048 (\<^verbatim>\<open>WSAEADDRINUSE\<close>) on Windows.
\<close>

datatype platform = Linux | MacOS | Windows

fun EADDRINUSE :: "platform \<Rightarrow> int" where
  "EADDRINUSE Linux = 98"
| "EADDRINUSE MacOS = 48"
| "EADDRINUSE Windows = 10048"

text \<open>An event that changes the working directory.\<close>

fun is_chdir :: "event \<Rightarrow> bool" where
  "is_chdir (Chdir d) = True"
| "is_chdir _ = False"

section \<open>Concrete runs and requests\<close>

text \<open>
  A run of the script installed as \<^verbatim>\<open>/srv/flux/scripts/servers/server.py\<close> in which every
  call succeeds and the server keeps serving.
\<close>

definition run_ok :: env where
  "run_ok = \<lparr>script_file = ''/srv/flux/scripts/servers/server.py'', chdir_result = None,
             bind_result = None, browser_result = None, serve_result = Blocks\<rparr>"

text \<open>
  A handler that answers an HTTP/1.1 request with status 200 and is about to finalize its
  headers, and a handler that answers an HTTP/0.9 request (a request line without a
  version, such as \<^verbatim>\<open>GET /\<close>), for which the parent class collects no header at all.
\<close>

definition http11_response :: handler where
  "http11_response =
     \<lparr>request_version = ''HTTP/1.1'',
      headers_buffer = Some [''HTTP/1.0 200 OK'' @ crlf,
                             header_line ''Content-type'' ''text/html; charset=utf-8'',
                             header_line ''Content-Length'' ''512''],
      wfile = [], close_connection = True\<rparr>"

definition http09_response :: handler where
  "http09_response =
     \<lparr>request_version = ''HTTP/0.9'', headers_buffer = None, wfile = [],
      close_connection = True\<rparr>"

section \<open>Properties of the MIME-type override\<close>

lemma unpack2_str:
  "unpack2 (PStr s) = (if length s = 2 then Inr (PStr [s ! 0], PStr [s ! 1]) else Inl ValueError)"
proof (cases s)
  case Nil
  then show ?thesis by simp
next
  case (Cons a t)
  show ?thesis
  proof (cases t)
    case Nil
    with Cons show ?thesis by simp
  next
    case (Cons b u)
    with \<open>s = a # t\<close> show ?thesis by (cases u) simp_all
  qed
qed

text \<open>
  Against a parent that answers with a pair, the override does what its docstring says:
  the type of a \<^verbatim>\<open>.js\<close> path is replaced, the second component is kept, and any other
  path gets the parent's pair back.
\<close>

lemma guess_type_pair:
  "super path = PTuple [m, e] \<Longrightarrow>
   guess_type super path =
     Inr (PTuple [if endswith path ''.js'' then PStr ''application/javascript'' else m, e])"
  by (simp add: guess_type_def)

text \<open>The suffix test compares characters as they are: no case folding takes place.\<close>

lemma endswith_iff: "endswith s suf \<longleftrightarrow> (\<exists>stem. s = stem @ suf)"
proof
  assume "endswith s suf"
  then have "s = take (length s - length suf) s @ suf"
    by (metis append_take_drop_id endswith_def)
  then show "\<exists>stem. s = stem @ suf" ..
next
  assume "\<exists>stem. s = stem @ suf"
  then show "endswith s suf" by (auto simp add: endswith_def)
qed

text \<open>
  Against the parent that the server has, whose answer is a string, the unpacking succeeds
  only on an answer of exactly two characters.
\<close>

lemma guess_type_stock:
  "guess_type (stock_guess_type emap mt) path =
     (let s = simple_guess_type emap mt path
      in if length s = 2
         then Inr (PTuple [if endswith path ''.js'' then PStr ''application/javascript''
                           else PStr [s ! 0],
                           PStr [s ! 1]])
         else Inl ValueError)"
  unfolding guess_type_def stock_guess_type_def unpack2_str by (simp add: Let_def)

lemma extensions_map_length: "extensions_map ext = Some t \<Longrightarrow> length t \<noteq> 2"
  by (auto simp add: extensions_map_def split: if_splits)

lemma simple_guess_type_length:
  assumes "\<And>p g. mt p = Some g \<Longrightarrow> length g \<noteq> 2"
  shows "length (simple_guess_type extensions_map mt path) \<noteq> 2"
  using assms extensions_map_length
  by (auto simp add: simple_guess_type_def Let_def split: option.splits)

text \<open>
  No MIME type is two characters long, so with the parent's default table the override
  raises on every path, whatever its extension.
\<close>

lemma guess_type_always_raises:
  assumes "\<And>p g. mt p = Some g \<Longrightarrow> length g \<noteq> 2"
  shows "guess_type (stock_guess_type extensions_map mt) path = Inl ValueError"
  using simple_guess_type_length [of mt path, OF assms]
  by (simp add: guess_type_stock Let_def)

lemma splitext_app_js: "splitext ''app.js'' = (''app'', ''.js'')"
  by (simp add: splitext_def rfind_def has_nondot.simps)

lemma splitext_index_html: "splitext ''index.html'' = (''index'', ''.html'')"
  by (simp add: splitext_def rfind_def has_nondot.simps)

lemma splitext_APP_JS: "splitext ''APP.JS'' = (''APP'', ''.JS'')"
  by (simp add: splitext_def rfind_def has_nondot.simps)

lemma lower_exts:
  "lower ''.js'' = ''.js''" "lower ''.JS'' = ''.js''" "lower ''.html'' = ''.html''"
  by code_simp+

lemma stock_app_js:
  "simple_guess_type extensions_map mimetypes_guess ''app.js'' = ''text/javascript''"
  by (simp add: simple_guess_type_def splitext_app_js lower_exts extensions_map_def
      mimetypes_guess_def types_map_def)

lemma stock_index_html:
  "simple_guess_type extensions_map mimetypes_guess ''index.html'' = ''text/html''"
  by (simp add: simple_guess_type_def splitext_index_html lower_exts extensions_map_def
      mimetypes_guess_def types_map_def)

lemma stock_APP_JS:
  "simple_guess_type extensions_map mimetypes_guess ''APP.JS'' = ''text/javascript''"
  by (simp add: simple_guess_type_def splitext_APP_JS lower_exts extensions_map_def
      mimetypes_guess_def types_map_def)

text \<open>
  C2. For a path ending in \<^verbatim>\<open>.js\<close> the override is meant to return
  \<^verbatim>\<open>'application/javascript'\<close> together with the parent's encoding. The parent's answer for
  \<^verbatim>\<open>app.js\<close> is the string \<^verbatim>\<open>'text/javascript'\<close>, not a pair; unpacking it into two names
  raises ValueError, so the override returns nothing.
\<close>

theorem guess_type_js_raises:
  "endswith ''app.js'' ''.js'' \<and>
   stock_guess_type extensions_map mimetypes_guess ''app.js'' = PStr ''text/javascript'' \<and>
   guess_type (stock_guess_type extensions_map mimetypes_guess) ''app.js'' = Inl ValueError"
  by (simp add: guess_type_stock stock_app_js stock_guess_type_def endswith_def)

text \<open>
  C5. For a path not ending in \<^verbatim>\<open>.js\<close> the override is meant to return what the parent
  returns. The parent's answer for \<^verbatim>\<open>index.html\<close> is the string \<^verbatim>\<open>'text/html'\<close>; the
  override raises ValueError on it instead of returning it.
\<close>

theorem guess_type_html_raises:
  "\<not> endswith ''index.html'' ''.js'' \<and>
   stock_guess_type extensions_map mimetypes_guess ''index.html'' = PStr ''text/html'' \<and>
   guess_type (stock_guess_type extensions_map mimetypes_guess) ''index.html'' = Inl ValueError"
  by (simp add: guess_type_stock stock_index_html stock_guess_type_def endswith_def)

text \<open>
  C9. The suffix test is case-sensitive: \<^verbatim>\<open>APP.JS\<close> does not end in \<^verbatim>\<open>.js\<close>, so the
  override does not substitute the JavaScript type. It does not fall through to the
  parent's answer \<^verbatim>\<open>'text/javascript'\<close> either: the unpacking has raised ValueError before
  the test is reached.
\<close>

theorem guess_type_upper_js_raises:
  "\<not> endswith ''APP.JS'' ''.js'' \<and>
   stock_guess_type extensions_map mimetypes_guess ''APP.JS'' = PStr ''text/javascript'' \<and>
   guess_type (stock_guess_type extensions_map mimetypes_guess) ''APP.JS'' = Inl ValueError"
  by (simp add: guess_type_stock stock_APP_JS stock_guess_type_def endswith_def)

section \<open>Properties of the header override\<close>

lemma lower_length: "length (lower s) = length s"
  by (simp add: lower_def)

text \<open>A header whose name is not \<^verbatim>\<open>Connection\<close> only touches the header buffer.\<close>

lemma send_header_plain:
  assumes "length keyword \<noteq> 10"
  shows "send_header keyword val h =
           (if request_version h \<noteq> ''HTTP/0.9''
            then h\<lparr>headers_buffer := Some (pending h @ [header_line keyword val])\<rparr>
            else h)"
proof -
  have "length (lower keyword) \<noteq> length ''connection''"
    using assms by (simp add: lower_length)
  then have "lower keyword \<noteq> ''connection''"
    by metis
  then show ?thesis
    by (simp add: send_header_def Let_def)
qed

lemma contains_append: "contains (a @ t @ b) t"
proof -
  have "length a \<in> set [0..<Suc (length (a @ t @ b))]" by simp
  moreover have "take (length t) (drop (length a) (a @ t @ b)) = t" by simp
  ultimately show ?thesis
    unfolding contains_def list_ex_iff by blast
qed

text \<open>What the override does, in one equation.\<close>

lemma end_headers_eq:
  "end_headers h =
     (if request_version h = ''HTTP/0.9'' then Inr h
      else Inr (h\<lparr>headers_buffer := Some [],
                  wfile := wfile h @ concat (pending h @ cors_headers @ [crlf])\<rparr>))"
  by (simp add: end_headers_def send_header_plain base_end_headers_def flush_headers_def
      pending_def cors_headers_def)

lemma cors_sent_block:
  assumes w: "wfile h' = wfile h @ concat (b @ cors_headers @ [crlf])"
  shows "cors_sent h h'"
proof -
  let ?l1 = "header_line ''Access-Control-Allow-Origin'' ''*''"
  let ?l2 = "header_line ''Access-Control-Allow-Methods'' ''GET, POST, OPTIONS''"
  let ?l3 = "header_line ''Access-Control-Allow-Headers'' ''*''"
  have wr: "written h h' = concat b @ ?l1 @ ?l2 @ ?l3 @ crlf"
    using w by (simp add: written_def cors_headers_def)
  have "contains (written h h') ?l1"
    unfolding wr by (rule contains_append)
  moreover have "contains (written h h') ?l2"
    using contains_append [of "concat b @ ?l1" ?l2 "?l3 @ crlf"] by (simp add: wr)
  moreover have "contains (written h h') ?l3"
    using contains_append [of "concat b @ ?l1 @ ?l2" ?l3 crlf] by (simp add: wr)
  ultimately show ?thesis
    by (simp add: cors_sent_def cors_headers_def)
qed

text \<open>
  C1, as stated: every response carries the three CORS headers. It fails for the answer
  to an HTTP/0.9 request: the parent's \<^verbatim>\<open>send_header\<close> and \<^verbatim>\<open>end_headers\<close> do nothing for
  that protocol version, so finalizing the headers writes no byte and the response has no
  header at all.
\<close>

theorem end_headers_http09_counterexample:
  "end_headers http09_response = Inr http09_response \<and>
   written http09_response http09_response = [] \<and>
   \<not> cors_sent http09_response http09_response"
  by (simp add: end_headers_eq http09_response_def cors_sent_def written_def cors_headers_def
      contains_def header_line_def)

text \<open>
  C1, amended: for every response to a request whose protocol version is not HTTP/0.9,
  finalizing the headers succeeds and writes the headers collected so far, then the three
  lines \<^verbatim>\<open>Access-Control-Allow-Origin: *\<close>, \<^verbatim>\<open>Access-Control-Allow-Methods: GET, POST, OPTIONS\<close>
  and \<^verbatim>\<open>Access-Control-Allow-Headers: *\<close>, then the blank line; this holds whatever the
  collected headers (and so the path, method and status code) are.
\<close>

theorem end_headers_cors:
  assumes "request_version h \<noteq> ''HTTP/0.9''"
  shows "\<exists>h'. end_headers h = Inr h' \<and>
              written h h' = concat (pending h) @ concat cors_headers @ crlf \<and>
              cors_sent h h'"
proof -
  let ?h' = "h\<lparr>headers_buffer := Some [],
                wfile := wfile h @ concat (pending h @ cors_headers @ [crlf])\<rparr>"
  have "end_headers h = Inr ?h'"
    using assms by (simp add: end_headers_eq)
  moreover have "written h ?h' = concat (pending h) @ concat cors_headers @ crlf"
    by (simp add: written_def)
  moreover have "cors_sent h ?h'"
    by (rule cors_sent_block [of _ _ "pending h"]) simp
  ultimately show ?thesis by blast
qed

text \<open>C1, amended, at the HTTP/1.1 response with status 200.\<close>

theorem end_headers_cors_witness:
  "request_version http11_response \<noteq> ''HTTP/0.9'' \<and>
   (\<exists>h'. end_headers http11_response = Inr h' \<and>
         written http11_response h' =
           ''HTTP/1.0 200 OK'' @ crlf @
           header_line ''Content-type'' ''text/html; charset=utf-8'' @
           header_line ''Content-Length'' ''512'' @
           header_line ''Access-Control-Allow-Origin'' ''*'' @
           header_line ''Access-Control-Allow-Methods'' ''GET, POST, OPTIONS'' @
           header_line ''Access-Control-Allow-Headers'' ''*'' @ crlf \<and>
         cors_sent http11_response h')"
proof -
  have v: "request_version http11_response \<noteq> ''HTTP/0.9''"
    by (simp add: http11_response_def)
  show ?thesis
    using v end_headers_cors [OF v]
    by (simp add: http11_response_def pending_def cors_headers_def)
qed

text \<open>
  C10. The override is the parent's \<^verbatim>\<open>end_headers\<close> run on a handler that differs from the
  given one only by the three CORS lines appended to the header buffer (and not at all for
  HTTP/0.9, where the parent collects no headers). It always succeeds; the protocol
  version and the keep-alive flag are untouched; the bytes written before stay, and the
  headers collected earlier are written unchanged, in order, ahead of the CORS lines.
\<close>

theorem end_headers_frame:
  "end_headers h =
     base_end_headers
       (if request_version h = ''HTTP/0.9'' then h
        else h\<lparr>headers_buffer := Some (pending h @ cors_headers)\<rparr>) \<and>
   (\<exists>h'. end_headers h = Inr h' \<and>
         request_version h' = request_version h \<and>
         close_connection h' = close_connection h \<and>
         wfile h' = wfile h @
           (if request_version h = ''HTTP/0.9'' then []
            else concat (pending h) @ concat cors_headers @ crlf))"
  by (simp add: end_headers_eq base_end_headers_def flush_headers_def)

text \<open>C10 at the HTTP/1.1 response: the status line and both headers are still sent.\<close>

theorem end_headers_frame_witness:
  "\<exists>h'. end_headers http11_response = Inr h' \<and>
        request_version h' = ''HTTP/1.1'' \<and>
        close_connection h' = True \<and>
        wfile h' = ''HTTP/1.0 200 OK'' @ crlf @
                   header_line ''Content-type'' ''text/html; charset=utf-8'' @
                   header_line ''Content-Length'' ''512'' @
                   concat cors_headers @ crlf"
proof -
  have v: "request_version http11_response = ''HTTP/1.1''"
    and c: "close_connection http11_response = True"
    and w: "wfile http11_response = []"
    and b: "concat (pending http11_response) =
              ''HTTP/1.0 200 OK'' @ crlf @
              header_line ''Content-type'' ''text/html; charset=utf-8'' @
              header_line ''Content-Length'' ''512''"
    by (simp_all add: http11_response_def pending_def)
  from end_headers_frame [of http11_response]
  obtain h' where "end_headers http11_response = Inr h'"
    and "request_version h' = request_version http11_response"
    and "close_connection h' = close_connection http11_response"
    and "wfile h' = wfile http11_response @
           (if request_version http11_response = ''HTTP/0.9'' then []
            else concat (pending http11_response) @ concat cors_headers @ crlf)"
    by blast
  then show ?thesis
    by (simp add: v c w b)
qed

section \<open>Properties of start-up and shutdown\<close>

lemma script_dir_examples:
  "path_str (path_parent (parse_path ''/srv/flux/scripts/servers/server.py'')) =
     ''/srv/flux/scripts/servers''"
  "path_str (path_parent (parse_path ''scripts/servers/server.py'')) = ''scripts/servers''"
  "path_str (path_parent (parse_path ''server.py'')) = ''.''"
  by (simp_all add: path_str_def path_parent_def parse_path_def splitroot_def)

lemma script_dir_installed:
  "script_file e = ''/srv/flux/scripts/servers/server.py'' \<Longrightarrow>
   script_dir e = ''/srv/flux/scripts/servers''"
  by (simp add: script_dir_def script_dir_examples)

text \<open>A run whose server cannot be created ends in the handler of \<^verbatim>\<open>OSError\<close>.\<close>

lemma main_bind_oserror:
  assumes "chdir_result e = None" and "bind_result e = Some (OSError errno msg)"
  shows "main e = (Chdir (script_dir e) # map Print (banner (script_dir e)) @
                     [Bind HOST PORT] @ on_oserror errno msg, Exit 1)"
  using assms by (simp add: main_def try_block_def)

text \<open>A run whose server is created reaches the serve loop; how it ends is up to the loop.\<close>

lemma main_serving:
  assumes "chdir_result e = None" and "bind_result e = None"
  shows "main e =
     (let evs = Chdir (script_dir e) # map Print (banner (script_dir e)) @ [Bind HOST PORT] @
                map Print started_lines @ open_browser e @
                [Print [], Print ''Server is running... Press Ctrl+C to stop'', ServeForever]
      in case serve_result e of
           Blocks \<Rightarrow> (evs, Serving)
         | Returns \<Rightarrow> (evs @ [ServerClose], Exit 0)
         | Raises x \<Rightarrow>
             (case x of
                OSError errno msg \<Rightarrow> (evs @ ServerClose # on_oserror errno msg, Exit 1)
              | KeyboardInterrupt \<Rightarrow> (evs @ ServerClose # map Print stopped_lines, Exit 0)
              | _ \<Rightarrow> (evs @ [ServerClose], finish x)))"
  using assms by (simp add: main_def try_block_def Let_def split: call.splits exn.splits)

lemma main_fst:
  assumes "chdir_result e = None"
  shows "fst (main e) =
     Chdir (script_dir e) # map Print (banner (script_dir e)) @ fst (try_block e) @
       (case snd (try_block e) of
          Raised (OSError errno msg) \<Rightarrow> on_oserror errno msg
        | Raised KeyboardInterrupt \<Rightarrow> map Print stopped_lines
        | _ \<Rightarrow> [])"
  using assms by (simp add: main_def split_beta split: flow.splits exn.splits)

text \<open>
  On macOS and on Windows the error number of "address already in use" is one of the two
  that the handler tests, and the run prints the port diagnostic.
\<close>

lemma address_in_use_classified:
  "is_address_in_use (Some (EADDRINUSE p)) \<longleftrightarrow> p \<noteq> Linux"
  by (cases p) (simp_all add: is_address_in_use_def)

lemma main_port_in_use:
  assumes "chdir_result e = None" and "bind_result e = Some (OSError errno msg)"
    and "is_address_in_use errno"
  shows "main e = (Chdir (script_dir e) # map Print (banner (script_dir e)) @
                     [Bind HOST PORT] @ map Print port_in_use_lines, Exit 1)"
  using assms by (simp add: main_bind_oserror on_oserror_def)

text \<open>
  C3. A bind that fails because the address is in use is meant to get the diagnostic that
  names the port and the remedies. On Linux that failure carries error number 98, which
  the handler does not test for: the run prints the generic \<^verbatim>\<open>Server error\<close> line, the
  same as for any other failure, and exits with code 1.
\<close>

theorem main_linux_address_in_use:
  "\<not> is_address_in_use (Some (EADDRINUSE Linux)) \<and>
   main (run_ok\<lparr>bind_result :=
           Some (OSError (Some (EADDRINUSE Linux)) ''[Errno 98] Address already in use'')\<rparr>) =
     (Chdir ''/srv/flux/scripts/servers'' # map Print (banner ''/srv/flux/scripts/servers'') @
        [Bind HOST PORT, Print (server_error_line ''[Errno 98] Address already in use'')],
      Exit 1)"
proof -
  let ?e = "run_ok\<lparr>bind_result :=
              Some (OSError (Some (EADDRINUSE Linux)) ''[Errno 98] Address already in use'')\<rparr>"
  have n: "\<not> is_address_in_use (Some (EADDRINUSE Linux))"
    by (simp add: is_address_in_use_def)
  have "main ?e = (Chdir (script_dir ?e) # map Print (banner (script_dir ?e)) @
          [Bind HOST PORT] @
          on_oserror (Some (EADDRINUSE Linux)) ''[Errno 98] Address already in use'', Exit 1)"
    by (rule main_bind_oserror) (simp_all add: run_ok_def)
  then show ?thesis
    using n by (simp add: script_dir_installed run_ok_def on_oserror_def)
qed

text \<open>
  C4. When \<^verbatim>\<open>serve_forever\<close> is interrupted by the user (KeyboardInterrupt), the server is
  closed, the two lines of the shutdown message are the last thing printed, and the
  process ends with exit code 0: the interrupt is caught, not propagated.
\<close>

theorem interrupt_exits_0:
  assumes "chdir_result e = None" and "bind_result e = None"
    and "serve_result e = Raises KeyboardInterrupt"
  shows "main e =
     (Chdir (script_dir e) # map Print (banner (script_dir e)) @ [Bind HOST PORT] @
      map Print started_lines @ open_browser e @
      [Print [], Print ''Server is running... Press Ctrl+C to stop'', ServeForever, ServerClose] @
      map Print stopped_lines, Exit 0)"
  using assms by (simp add: main_serving)

text \<open>C4 at the run of the installed script, interrupted while serving.\<close>

theorem interrupt_exits_0_witness:
  "chdir_result (run_ok\<lparr>serve_result := Raises KeyboardInterrupt\<rparr>) = None \<and>
   bind_result (run_ok\<lparr>serve_result := Raises KeyboardInterrupt\<rparr>) = None \<and>
   serve_result (run_ok\<lparr>serve_result := Raises KeyboardInterrupt\<rparr>) = Raises KeyboardInterrupt \<and>
   snd (main (run_ok\<lparr>serve_result := Raises KeyboardInterrupt\<rparr>)) = Exit 0 \<and>
   last (fst (main (run_ok\<lparr>serve_result := Raises KeyboardInterrupt\<rparr>))) =
     Print (''Thanks for using FLUX! '' @ musical_note)"
proof -
  let ?e = "run_ok\<lparr>serve_result := Raises KeyboardInterrupt\<rparr>"
  have h: "chdir_result ?e = None" "bind_result ?e = None"
    "serve_result ?e = Raises KeyboardInterrupt"
    by (simp_all add: run_ok_def)
  show ?thesis
    using h interrupt_exits_0 [OF h] by (simp add: stopped_lines_def)
qed

text \<open>
  C6. Every \<^verbatim>\<open>OSError\<close> raised while the server is created (bind, listen) ends the process
  with exit code 1, whichever branch of the handler prints. When its error number is not
  the number that means "address already in use" on macOS or on Windows (so for every other
  failure, and on Linux for the address-in-use number 98 as well), the one line printed
  after the banner is the raw error: the cross mark, \<^verbatim>\<open> Server error: \<close> and the text
  \<^verbatim>\<open>str(e)\<close> of the exception, nothing of the port diagnostic.
\<close>

theorem bind_oserror_exits_1:
  assumes "chdir_result e = None" and "bind_result e = Some (OSError errno msg)"
  shows "snd (main e) = Exit 1 \<and>
         (errno \<noteq> Some (EADDRINUSE MacOS) \<and> errno \<noteq> Some (EADDRINUSE Windows) \<longrightarrow>
            fst (main e) =
              Chdir (script_dir e) # map Print (banner (script_dir e)) @
              [Bind ''localhost'' 8000,
               Print ([CHR 0xE2, CHR 0x9D, CHR 0x8C] @ '' Server error: '' @ msg)])"
  using assms
  by (simp add: main_bind_oserror on_oserror_def is_address_in_use_def server_error_line_def
      cross_mark_def HOST_def PORT_def)

text \<open>
  C6 at a bind refused for lack of permission (error number 13): the line printed is the
  text of that error.
\<close>

theorem bind_oserror_exits_1_witness:
  "chdir_result (run_ok\<lparr>bind_result := Some (OSError (Some 13) ''[Errno 13] Permission denied'')\<rparr>)
     = None \<and>
   Some 13 \<noteq> Some (EADDRINUSE MacOS) \<and> Some 13 \<noteq> Some (EADDRINUSE Windows) \<and>
   main (run_ok\<lparr>bind_result := Some (OSError (Some 13) ''[Errno 13] Permission denied'')\<rparr>) =
     (Chdir ''/srv/flux/scripts/servers'' # map Print (banner ''/srv/flux/scripts/servers'') @
        [Bind ''localhost'' 8000,
         Print ([CHR 0xE2, CHR 0x9D, CHR 0x8C] @ '' Server error: [Errno 13] Permission denied'')],
      Exit 1)"
proof -
  let ?e = "run_ok\<lparr>bind_result := Some (OSError (Some 13) ''[Errno 13] Permission denied'')\<rparr>"
  have c: "chdir_result ?e = None"
    and b: "bind_result ?e = Some (OSError (Some 13) ''[Errno 13] Permission denied'')"
    by (simp_all add: run_ok_def)
  have n: "Some 13 \<noteq> Some (EADDRINUSE MacOS) \<and> Some 13 \<noteq> Some (EADDRINUSE Windows)"
    by simp
  have d: "script_dir ?e = ''/srv/flux/scripts/servers''"
    by (simp add: script_dir_installed run_ok_def)
  from bind_oserror_exits_1 [OF c b] n
  have "snd (main ?e) = Exit 1"
    and "fst (main ?e) = Chdir (script_dir ?e) # map Print (banner (script_dir ?e)) @
           [Bind ''localhost'' 8000,
            Print ([CHR 0xE2, CHR 0x9D, CHR 0x8C] @ '' Server error: '' @
                   ''[Errno 13] Permission denied'')]"
    by blast+
  then have "main ?e = (Chdir (script_dir ?e) # map Print (banner (script_dir ?e)) @
           [Bind ''localhost'' 8000,
            Print ([CHR 0xE2, CHR 0x9D, CHR 0x8C] @ '' Server error: '' @
                   ''[Errno 13] Permission denied'')], Exit 1)"
    by (simp add: prod_eq_iff)
  then show ?thesis
    using c by (simp add: d)
qed

lemma no_chdir_on_oserror: "list_all (\<lambda>ev. \<not> is_chdir ev) (on_oserror errno msg)"
  by (auto simp add: on_oserror_def list_all_iff)

lemma no_chdir_print: "list_all (\<lambda>ev. \<not> is_chdir ev) (map Print ls)"
  by (auto simp add: list_all_iff)

lemma no_chdir_try_block: "list_all (\<lambda>ev. \<not> is_chdir ev) (fst (try_block e))"
  by (simp add: try_block_def open_browser_def no_chdir_print Let_def
      split: option.splits call.splits)

text \<open>
  C7. The first thing a run does is change the working directory to the parent of the
  script file's path; nothing after it changes the directory again, so the creation of the
  server and the serve loop, when they are reached, come after this one change; and when
  the change itself raises, the run ends there and nothing is bound or served. The target
  depends on the script file's path alone.
\<close>

theorem chdir_once:
  "\<exists>rest. fst (main e) = Chdir (path_str (path_parent (parse_path (script_file e)))) # rest \<and>
          list_all (\<lambda>ev. \<not> is_chdir ev) rest \<and>
          (chdir_result e \<noteq> None \<longrightarrow> rest = [])"
proof (cases "chdir_result e")
  case None
  have "list_all (\<lambda>ev. \<not> is_chdir ev)
          (case snd (try_block e) of
             Raised (OSError errno msg) \<Rightarrow> on_oserror errno msg
           | Raised KeyboardInterrupt \<Rightarrow> map Print stopped_lines
           | _ \<Rightarrow> [])"
    by (simp add: no_chdir_on_oserror no_chdir_print split: flow.splits exn.splits)
  then show ?thesis
    using None no_chdir_try_block [of e] no_chdir_print [of "banner (script_dir e)"]
    by (simp add: main_fst script_dir_def)
next
  case (Some x)
  then show ?thesis by (simp add: main_def script_dir_def)
qed

text \<open>
  C7 at the installed script when the directory cannot be entered: the attempt is the
  whole run.
\<close>

theorem chdir_once_witness:
  "chdir_result (run_ok\<lparr>chdir_result := Some (OSError (Some 13) ''[Errno 13] Permission denied'')\<rparr>)
     \<noteq> None \<and>
   fst (main (run_ok\<lparr>chdir_result := Some (OSError (Some 13) ''[Errno 13] Permission denied'')\<rparr>))
     = [Chdir ''/srv/flux/scripts/servers'']"
proof -
  let ?e = "run_ok\<lparr>chdir_result := Some (OSError (Some 13) ''[Errno 13] Permission denied'')\<rparr>"
  have c: "chdir_result ?e \<noteq> None"
    by (simp add: run_ok_def)
  have f: "script_file ?e = ''/srv/flux/scripts/servers/server.py''"
    by (simp add: run_ok_def)
  from chdir_once [of ?e] c
  have "fst (main ?e) = [Chdir (path_str (path_parent (parse_path (script_file ?e))))]"
    by blast
  then show ?thesis
    using c by (simp add: f script_dir_examples)
qed










end
